theory Spec2Isabelle
  imports Complex_Main "HOL-Library.Sublist"
begin

section \<open>Python values\<close>

text \<open>
  The script \<^verbatim>\<open>youtube_transcript_fetcher.py\<close> has two functions, \<^verbatim>\<open>fetch_transcript\<close> and
  \<^verbatim>\<open>main\<close>. Both are glue around collaborators that are not part of the repository: the
  \<^verbatim>\<open>youtube_transcript_api\<close> package, the \<^verbatim>\<open>json\<close> module, the file system, the standard
  output and the interpreter that ends the process. The collaborators are parameters of the
  model (records of functions); the two functions of the script are translated statement by
  statement.

  \<^verbatim>\<open>proxy_config\<close> is whatever \<^verbatim>\<open>json.loads\<close> returned, or \<^verbatim>\<open>None\<close>, so it is modelled as a
  JSON value. The type \<open>'f\<close> stands for Python's \<^verbatim>\<open>float\<close>: the script only adds two floats
  and tests one for truth, so the model asks for nothing but \<open>+\<close> and \<open>0\<close> on \<open>'f\<close> and every
  theorem holds for any such type. A \<^verbatim>\<open>dict\<close> is an association list in insertion order.
\<close>

datatype 'f json =
    JNull
  | JBool bool
  | JInt int
  | JFloat 'f
  | JStr string
  | JList "'f json list"
  | JDict "(string \<times> 'f json) list"

text \<open>
  An exception object: the name of its class, whether it is an instance of \<^verbatim>\<open>Exception\<close>
  (what a handler \<^verbatim>\<open>except Exception\<close> tests), and the text \<^verbatim>\<open>str(e)\<close> gives. A
  \<^verbatim>\<open>KeyboardInterrupt\<close> or a \<^verbatim>\<open>SystemExit\<close> is an exception that is no instance of
  \<^verbatim>\<open>Exception\<close>.
\<close>

datatype py_exception = PyException (exc_class: string) (is_Exception: bool) (str: string)

text \<open>\<^verbatim>\<open>bool(v)\<close>, the truth test an \<^verbatim>\<open>if\<close> or an \<^verbatim>\<open>and\<close> applies to a value.\<close>

fun truthy :: "('f::zero) json \<Rightarrow> bool" where
  "truthy JNull = False"
| "truthy (JBool b) = b"
| "truthy (JInt n) = (n \<noteq> 0)"
| "truthy (JFloat x) = (x \<noteq> 0)"
| "truthy (JStr s) = (s \<noteq> [])"
| "truthy (JList xs) = (xs \<noteq> [])"
| "truthy (JDict kvs) = (kvs \<noteq> [])"

text \<open>\<^verbatim>\<open>type(v).__name__\<close>, which the interpreter puts into the text of a \<^verbatim>\<open>TypeError\<close>.\<close>

fun type_name :: "'f json \<Rightarrow> string" where
  "type_name JNull = ''NoneType''"
| "type_name (JBool b) = ''bool''"
| "type_name (JInt n) = ''int''"
| "type_name (JFloat x) = ''float''"
| "type_name (JStr s) = ''str''"
| "type_name (JList xs) = ''list''"
| "type_name (JDict kvs) = ''dict''"

definition quoted :: "string \<Rightarrow> string" where
  "quoted s = CHR 0x27 # s @ [CHR 0x27]"

text \<open>\<^verbatim>\<open>needle in haystack\<close> for two strings: the substring test.\<close>

fun is_substring :: "string \<Rightarrow> string \<Rightarrow> bool" where
  "is_substring needle [] = (needle = [])"
| "is_substring needle (c # cs) = (prefix needle (c # cs) \<or> is_substring needle cs)"

text \<open>
  \<^verbatim>\<open>key in v\<close> for a string \<^verbatim>\<open>key\<close>: key membership in a \<^verbatim>\<open>dict\<close>, element membership in a
  \<^verbatim>\<open>list\<close>, the substring test in a \<^verbatim>\<open>str\<close>, and a \<^verbatim>\<open>TypeError\<close> for \<^verbatim>\<open>None\<close>, a \<^verbatim>\<open>bool\<close>, an
  \<^verbatim>\<open>int\<close> or a \<^verbatim>\<open>float\<close>. The texts of the interpreter's errors are CPython's and change
  with its version; no theorem below depends on them.
\<close>

fun py_in :: "string \<Rightarrow> 'f json \<Rightarrow> py_exception + bool" where
  "py_in key (JDict kvs) = Inr (key \<in> set (map fst kvs))"
| "py_in key (JList xs) = Inr (JStr key \<in> set xs)"
| "py_in key (JStr s) = Inr (is_substring key s)"
| "py_in key v =
     Inl (PyException ''TypeError'' True
            (''argument of type '' @ quoted (type_name v) @ '' is not iterable''))"

text \<open>
  \<^verbatim>\<open>v[key]\<close> for a string \<^verbatim>\<open>key\<close>: the lookup in a \<^verbatim>\<open>dict\<close> (\<^verbatim>\<open>KeyError\<close> when the key is
  missing) and a \<^verbatim>\<open>TypeError\<close> for every other value.
\<close>

fun py_getitem :: "'f json \<Rightarrow> string \<Rightarrow> py_exception + 'f json" where
  "py_getitem (JDict kvs) key =
     (case map_of kvs key of
        Some v \<Rightarrow> Inr v
      | None \<Rightarrow> Inl (PyException ''KeyError'' True (quoted key)))"
| "py_getitem (JStr s) key =
     Inl (PyException ''TypeError'' True ''string indices must be integers'')"
| "py_getitem (JList xs) key =
     Inl (PyException ''TypeError'' True ''list indices must be integers or slices, not str'')"
| "py_getitem v key =
     Inl (PyException ''TypeError'' True
            (quoted (type_name v) @ '' object is not subscriptable''))"

section \<open>The transcript library\<close>

text \<open>
  \<^verbatim>\<open>FetchedTranscriptSnippet\<close> is the library's segment object with the attributes
  \<^verbatim>\<open>text\<close>, \<^verbatim>\<open>start\<close> and \<^verbatim>\<open>duration\<close> (a \<^verbatim>\<open>str\<close> and two \<^verbatim>\<open>float\<close>s). What \<^verbatim>\<open>fetch\<close> returns
  is iterated and tested for truth by the script; it is a list of segments, or \<^verbatim>\<open>None\<close>.
\<close>

record 'f FetchedTranscriptSnippet =
  snippet_text :: string
  snippet_start :: 'f
  snippet_duration :: 'f

type_synonym 'f FetchedTranscript = "'f FetchedTranscriptSnippet list option"

text \<open>
  The two objects the script constructs. A constructor call allocates the object from its
  arguments and runs the library's \<^verbatim>\<open>__init__\<close>, which may raise.
\<close>

datatype 'f proxy_config_obj =
  WebshareProxyConfig (proxy_username: "'f json") (proxy_password: "'f json")

datatype 'f ytt_api = YouTubeTranscriptApi (api_proxy_config: "'f proxy_config_obj option")

record 'f library =
  proxy_init :: "'f proxy_config_obj \<Rightarrow> py_exception option"
  api_init :: "'f ytt_api \<Rightarrow> py_exception option"
  fetch :: "'f ytt_api \<Rightarrow> string \<Rightarrow> py_exception + 'f FetchedTranscript"

section \<open>The result\<close>

text \<open>The plain \<^verbatim>\<open>dict\<close> with the keys \<^verbatim>\<open>text\<close>, \<^verbatim>\<open>start\<close> and \<^verbatim>\<open>duration\<close> built for each segment.\<close>

record 'f snippet_dict =
  text' :: string
  start :: 'f
  duration :: 'f

text \<open>
  \<^verbatim>\<open>total_duration\<close> starts as the \<^verbatim>\<open>int\<close> \<^verbatim>\<open>0\<close> and is overwritten by a \<^verbatim>\<open>float\<close> sum.
\<close>

datatype 'f py_number = PyInt int | PyFloat 'f

text \<open>
  The \<^verbatim>\<open>dict\<close> \<^verbatim>\<open>fetch_transcript\<close> returns: the one built at the end of the \<^verbatim>\<open>try\<close> block,
  with \<^verbatim>\<open>'success': True\<close>, or the one built by the handler, with \<^verbatim>\<open>'success': False\<close>.
\<close>

datatype 'f transcript_data =
    Success (video_id: string) (snippets: "'f snippet_dict list")
            (total_duration: "'f py_number") (snippet_count: nat)
  | Failure (video_id: string) (error: string)

fun success :: "'f transcript_data \<Rightarrow> bool" where
  "success (Success v xs t n) = True"
| "success (Failure v e) = False"

section \<open>Calls to the outside\<close>

text \<open>
  Every function returns, next to its result, the calls it made to the library and to the
  file system, in order. A call that raises is in the list too.
\<close>

datatype 'f call =
    Call_WebshareProxyConfig "'f json" "'f json"
  | Call_YouTubeTranscriptApi "'f proxy_config_obj option"
  | Call_fetch "'f ytt_api" string
  | Call_open string string string
  | Call_json_dump "'f transcript_data" string bool nat

section \<open>fetch_transcript\<close>

text \<open>
  The condition of the \<^verbatim>\<open>if\<close> at the head of the \<^verbatim>\<open>try\<close> block,
  \<^verbatim>\<open>proxy_config and 'proxy_username' in proxy_config and 'proxy_password' in proxy_config\<close>,
  evaluated left to right with the short circuit of \<^verbatim>\<open>and\<close>. A membership test may raise.
\<close>

definition proxy_condition :: "('f::zero) json \<Rightarrow> py_exception + bool" where
  "proxy_condition proxy_config =
     (if \<not> truthy proxy_config then Inr False
      else case py_in ''proxy_username'' proxy_config of
             Inl e \<Rightarrow> Inl e
           | Inr False \<Rightarrow> Inr False
           | Inr True \<Rightarrow> py_in ''proxy_password'' proxy_config)"

text \<open>
  The branch with the proxy: the two subscripts are evaluated, then
  \<^verbatim>\<open>WebshareProxyConfig\<close> is called, then \<^verbatim>\<open>YouTubeTranscriptApi(proxy_config=...)\<close>, then
  \<^verbatim>\<open>fetch\<close> on the client. The first exception ends the branch.
\<close>

definition fetch_with_proxy ::
  "'f library \<Rightarrow> string \<Rightarrow> 'f json \<Rightarrow> 'f call list \<times> (py_exception + 'f FetchedTranscript)" where
  "fetch_with_proxy lib vid proxy_config =
     (case py_getitem proxy_config ''proxy_username'' of
        Inl e \<Rightarrow> ([], Inl e)
      | Inr username \<Rightarrow>
     (case py_getitem proxy_config ''proxy_password'' of
        Inl e \<Rightarrow> ([], Inl e)
      | Inr password \<Rightarrow>
     (let proxy_config_obj = WebshareProxyConfig username password;
          c1 = Call_WebshareProxyConfig username password
      in case proxy_init lib proxy_config_obj of
           Some e \<Rightarrow> ([c1], Inl e)
         | None \<Rightarrow>
     (let ytt_api = YouTubeTranscriptApi (Some proxy_config_obj);
          c2 = Call_YouTubeTranscriptApi (Some proxy_config_obj)
      in case api_init lib ytt_api of
           Some e \<Rightarrow> ([c1, c2], Inl e)
         | None \<Rightarrow> ([c1, c2, Call_fetch ytt_api vid], fetch lib ytt_api vid)))))"

text \<open>The branch without the proxy: \<^verbatim>\<open>YouTubeTranscriptApi()\<close>, then \<^verbatim>\<open>fetch\<close>.\<close>

definition fetch_without_proxy ::
  "'f library \<Rightarrow> string \<Rightarrow> 'f call list \<times> (py_exception + 'f FetchedTranscript)" where
  "fetch_without_proxy lib vid =
     (let ytt_api = YouTubeTranscriptApi None;
          c = Call_YouTubeTranscriptApi None
      in case api_init lib ytt_api of
           Some e \<Rightarrow> ([c], Inl e)
         | None \<Rightarrow> ([c, Call_fetch ytt_api vid], fetch lib ytt_api vid))"

text \<open>The \<^verbatim>\<open>if\<close>/\<^verbatim>\<open>else\<close> that assigns \<^verbatim>\<open>transcript_list\<close>.\<close>

definition get_transcript_list ::
  "('f::zero) library \<Rightarrow> string \<Rightarrow> 'f json \<Rightarrow>
     'f call list \<times> (py_exception + 'f FetchedTranscript)" where
  "get_transcript_list lib vid proxy_config =
     (case proxy_condition proxy_config of
        Inl e \<Rightarrow> ([], Inl e)
      | Inr True \<Rightarrow> fetch_with_proxy lib vid proxy_config
      | Inr False \<Rightarrow> fetch_without_proxy lib vid)"

text \<open>
  The \<^verbatim>\<open>for\<close> loop: each segment becomes a \<^verbatim>\<open>dict\<close> that is appended to \<^verbatim>\<open>snippets_list\<close>.
\<close>

definition snippet_to_dict :: "'f FetchedTranscriptSnippet \<Rightarrow> 'f snippet_dict" where
  "snippet_to_dict snippet =
     \<lparr>text' = snippet_text snippet,
      start = snippet_start snippet,
      duration = snippet_duration snippet\<rparr>"

fun append_snippets ::
  "'f FetchedTranscriptSnippet list \<Rightarrow> 'f snippet_dict list \<Rightarrow> 'f snippet_dict list" where
  "append_snippets [] snippets_list = snippets_list"
| "append_snippets (snippet # rest) snippets_list =
     append_snippets rest (snippets_list @ [snippet_to_dict snippet])"

text \<open>\<^verbatim>\<open>if transcript_list:\<close> is false for \<^verbatim>\<open>None\<close> and for an empty sequence.\<close>

fun transcript_truthy :: "'f FetchedTranscript \<Rightarrow> bool" where
  "transcript_truthy None = False"
| "transcript_truthy (Some segments) = (segments \<noteq> [])"

text \<open>
  The rest of the \<^verbatim>\<open>try\<close> block, from \<^verbatim>\<open>total_duration = 0\<close> to the \<^verbatim>\<open>return\<close>. The loop
  runs only under \<^verbatim>\<open>if transcript_list:\<close>, and \<^verbatim>\<open>snippets_list[-1]\<close> is read only under
  \<^verbatim>\<open>if snippets_list:\<close>. The attributes of a segment are \<^verbatim>\<open>float\<close>s, on which \<^verbatim>\<open>float(...)\<close>
  is the identity.
\<close>

definition convert_snippets ::
  "('f::plus) FetchedTranscript \<Rightarrow> 'f snippet_dict list \<times> 'f py_number" where
  "convert_snippets transcript_list =
     (case transcript_list of
        None \<Rightarrow> ([], PyInt 0)
      | Some segments \<Rightarrow>
          if transcript_truthy (Some segments)
          then (let snippets_list = append_snippets segments []
                in (snippets_list,
                    if snippets_list \<noteq> []
                    then (let last_snippet = last snippets_list
                          in PyFloat (start last_snippet + duration last_snippet))
                    else PyInt 0))
          else ([], PyInt 0))"

definition build_transcript_data ::
  "string \<Rightarrow> ('f::plus) FetchedTranscript \<Rightarrow> 'f transcript_data" where
  "build_transcript_data vid transcript_list =
     (case convert_snippets transcript_list of
        (snippets_list, duration_sum) \<Rightarrow>
          Success vid snippets_list duration_sum (length snippets_list))"

text \<open>
  The whole function: the \<^verbatim>\<open>try\<close> block, and the handler \<^verbatim>\<open>except Exception as e\<close> that
  returns the failure \<^verbatim>\<open>dict\<close> with \<^verbatim>\<open>str(e)\<close>. An exception that is no instance of
  \<^verbatim>\<open>Exception\<close> passes the handler and leaves the function: the outcome \<open>Inl e\<close>. The outcome
  \<open>Inr result\<close> is the \<^verbatim>\<open>return\<close> of \<open>result\<close>.
\<close>

definition fetch_transcript ::
  "('f::{zero,plus}) library \<Rightarrow> string \<Rightarrow> 'f json \<Rightarrow>
     'f call list \<times> (py_exception + 'f transcript_data)" where
  "fetch_transcript lib vid proxy_config =
     (case get_transcript_list lib vid proxy_config of
        (calls, Inr transcript_list) \<Rightarrow>
          (calls, Inr (build_transcript_data vid transcript_list))
      | (calls, Inl e) \<Rightarrow>
          (calls, if is_Exception e then Inr (Failure vid (str e)) else Inl e))"

section \<open>main\<close>

text \<open>
  What the confirmation \<^verbatim>\<open>print\<close> to standard output can do: deliver the line; raise (a
  stream that cannot encode the line, a closed stream); or leave the line in the buffer of a
  stream that fails when the interpreter flushes it at exit, on which the interpreter reports
  the error on the error stream and the exit status becomes 120.
\<close>

datatype print_outcome = Printed | Print_raises py_exception | Flush_fails "string list"

text \<open>
  What \<^verbatim>\<open>main\<close> uses besides the library: \<^verbatim>\<open>json.loads\<close> (\<open>None\<close> when it raises
  \<^verbatim>\<open>JSONDecodeError\<close>), \<^verbatim>\<open>open(output_file, 'w', encoding='utf-8')\<close>,
  \<^verbatim>\<open>json.dump(result, f, ensure_ascii=False, indent=2)\<close> together with the closing of the
  file (these two give the exception they raise, if any), the \<^verbatim>\<open>print\<close> to standard output,
  and what the interpreter does with an exception that no handler caught: the lines it writes
  to the error stream and the exit status.
\<close>

record 'f runtime =
  json_loads :: "string \<Rightarrow> 'f json option"
  open_file :: "string \<Rightarrow> string \<Rightarrow> string \<Rightarrow> py_exception option"
  json_dump :: "'f transcript_data \<Rightarrow> string \<Rightarrow> bool \<Rightarrow> nat \<Rightarrow> py_exception option"
  print_stdout :: "string \<Rightarrow> print_outcome"
  uncaught :: "py_exception \<Rightarrow> string list \<times> nat"

text \<open>
  A finished run of the process: the lines that reached the two streams, the exit status and
  the calls made. A \<^verbatim>\<open>print\<close> to the error stream appends its line and does not fail.
\<close>

record 'f process =
  stdout :: "string list"
  stderr :: "string list"
  exit_status :: nat
  trace :: "'f call list"

definition usage :: string where
  "usage = ''Usage: python youtube_transcript_fetcher.py <video_id> <output_file> [proxy_config_json]''"

text \<open>
  The part of \<^verbatim>\<open>main\<close> that sets \<^verbatim>\<open>proxy_config\<close>: \<^verbatim>\<open>None\<close> without a third argument, the
  parsed value with one, and no value when the parse fails.
\<close>

definition parse_proxy_config :: "'f runtime \<Rightarrow> string list \<Rightarrow> 'f json option" where
  "parse_proxy_config rt argv =
     (if length argv > 3 then json_loads rt (argv ! 3) else Some JNull)"

text \<open>An exception that reaches the top of the program ends the process in the interpreter.\<close>

definition propagate :: "'f runtime \<Rightarrow> py_exception \<Rightarrow> 'f call list \<Rightarrow> 'f process" where
  "propagate rt e made =
     \<lparr>stdout = [], stderr = fst (uncaught rt e), exit_status = snd (uncaught rt e),
      trace = made\<rparr>"

text \<open>
  The handler of the last \<^verbatim>\<open>try\<close> block of \<^verbatim>\<open>main\<close>, \<^verbatim>\<open>except Exception as e\<close>: the error is
  printed to the error stream and \<^verbatim>\<open>sys.exit(1)\<close> ends the process.
\<close>

definition write_handler :: "'f runtime \<Rightarrow> py_exception \<Rightarrow> 'f call list \<Rightarrow> 'f process" where
  "write_handler rt e made =
     (if is_Exception e
      then \<lparr>stdout = [], stderr = [''Error writing to output file: '' @ str e],
            exit_status = 1, trace = made\<rparr>
      else propagate rt e made)"

text \<open>
  The last \<^verbatim>\<open>try\<close> block of \<^verbatim>\<open>main\<close>: open, dump, and the \<^verbatim>\<open>print\<close> of the confirmation, all
  three inside the block. Falling off the end of \<^verbatim>\<open>main\<close> is status 0.
\<close>

definition write_result ::
  "'f runtime \<Rightarrow> string \<Rightarrow> 'f call list \<Rightarrow> 'f transcript_data \<Rightarrow> 'f process" where
  "write_result rt output_file made result =
     (let c1 = Call_open output_file ''w'' ''utf-8'';
          c2 = Call_json_dump result output_file False 2;
          confirmation = ''Transcript data written to '' @ output_file
      in case open_file rt output_file ''w'' ''utf-8'' of
           Some e \<Rightarrow> write_handler rt e (made @ [c1])
         | None \<Rightarrow>
             (case json_dump rt result output_file False 2 of
                Some e \<Rightarrow> write_handler rt e (made @ [c1, c2])
              | None \<Rightarrow>
                  (case print_stdout rt confirmation of
                     Printed \<Rightarrow>
                       \<lparr>stdout = [confirmation], stderr = [], exit_status = 0,
                        trace = made @ [c1, c2]\<rparr>
                   | Print_raises e \<Rightarrow> write_handler rt e (made @ [c1, c2])
                   | Flush_fails report \<Rightarrow>
                       \<lparr>stdout = [], stderr = report, exit_status = 120,
                        trace = made @ [c1, c2]\<rparr>)))"

text \<open>
  \<^verbatim>\<open>main\<close>, with \<^verbatim>\<open>sys.argv\<close> as the argument \<open>argv\<close> (the program's name first). The call of
  \<^verbatim>\<open>fetch_transcript\<close> is under no handler.
\<close>

definition main :: "('f::{zero,plus}) library \<Rightarrow> 'f runtime \<Rightarrow> string list \<Rightarrow> 'f process" where
  "main lib rt argv =
     (if length argv < 3
      then \<lparr>stdout = [], stderr = [usage], exit_status = 1, trace = []\<rparr>
      else (let vid = argv ! 1;
                output_file = argv ! 2
            in case parse_proxy_config rt argv of
                 None \<Rightarrow>
                   \<lparr>stdout = [], stderr = [''Invalid proxy configuration JSON''],
                    exit_status = 1, trace = []\<rparr>
               | Some proxy_config \<Rightarrow>
                   (case fetch_transcript lib vid proxy_config of
                      (made, Inl e) \<Rightarrow> propagate rt e made
                    | (made, Inr result) \<Rightarrow> write_result rt output_file made result)))"

section \<open>Notions the properties are stated with\<close>









text \<open>
  Constructing the client \<open>api\<close>, or the fetch on it after a construction that went well,
  raises \<open>e\<close>.
\<close>

definition client_raises :: "'f library \<Rightarrow> 'f ytt_api \<Rightarrow> string \<Rightarrow> py_exception \<Rightarrow> bool" where
  "client_raises lib api vid e =
     (api_init lib api = Some e \<or> (api_init lib api = None \<and> fetch lib api vid = Inl e))"

text \<open>The same for the client with the proxy, whose construction starts with the proxy object.\<close>

definition proxy_client_raises ::
  "'f library \<Rightarrow> 'f json \<Rightarrow> 'f json \<Rightarrow> string \<Rightarrow> py_exception \<Rightarrow> bool" where
  "proxy_client_raises lib username password vid e =
     (let obj = WebshareProxyConfig username password
      in proxy_init lib obj = Some e \<or>
         (proxy_init lib obj = None \<and>
          client_raises lib (YouTubeTranscriptApi (Some obj)) vid e))"

text \<open>The exception with which writing the output file (open, dump, close) fails, if it does.\<close>

definition write_failure ::
  "'f runtime \<Rightarrow> string \<Rightarrow> 'f transcript_data \<Rightarrow> py_exception option" where
  "write_failure rt output_file result =
     (case open_file rt output_file ''w'' ''utf-8'' of
        Some e \<Rightarrow> Some e
      | None \<Rightarrow> json_dump rt result output_file False 2)"

section \<open>A stub library and runtime\<close>

text \<open>
  Test doubles on which the theorems are run. The library: its constructors never raise; its
  fetch knows the video \<^verbatim>\<open>abc123\<close>, with the single segment
  \<^verbatim>\<open>{text: "hi", start: 0.0, duration: 1.5}\<close>, and the video \<^verbatim>\<open>silent\<close>, with no segment; on
  the id \<^verbatim>\<open>interrupted\<close> the fetch is broken off by a \<^verbatim>\<open>KeyboardInterrupt\<close>; for every other id
  it raises \<^verbatim>\<open>video unavailable\<close>. Floats are real numbers here.

  A second library, \<open>refusing_library\<close>, is the same except that the construction of a client
  with a proxy raises.

  The runtime: it parses three texts; it can write to \<^verbatim>\<open>out.json\<close> and to a file whose name
  has an accented letter (\<open>accented_name\<close>, in UTF-8); its standard output is ASCII and raises
  on a line with that name; an uncaught exception gives a traceback and status 1.
\<close>

definition stub_library :: "real library" where
  "stub_library =
     \<lparr>proxy_init = (\<lambda>obj. None),
      api_init = (\<lambda>api. None),
      fetch = (\<lambda>api v.
        if v = ''abc123''
        then Inr (Some [\<lparr>snippet_text = ''hi'', snippet_start = 0, snippet_duration = 3 / 2\<rparr>])
        else if v = ''silent'' then Inr (Some [])
        else if v = ''interrupted'' then Inl (PyException ''KeyboardInterrupt'' False [])
        else Inl (PyException ''VideoUnavailable'' True ''video unavailable''))\<rparr>"

definition refusing_library :: "real library" where
  "refusing_library =
     stub_library
       \<lparr>api_init := (\<lambda>api.
          case api of
            YouTubeTranscriptApi None \<Rightarrow> None
          | YouTubeTranscriptApi (Some obj) \<Rightarrow>
              Some (PyException ''ValueError'' True ''bad proxy''))\<rparr>"

definition accented_name :: string where
  "accented_name = ''caf'' @ [CHR 0xC3, CHR 0xA9] @ ''.json''"

definition stub_runtime :: "real runtime" where
  "stub_runtime =
     \<lparr>json_loads = (\<lambda>s.
        if s = ''5'' then Some (JInt 5)
        else if s = ''true'' then Some (JBool True)
        else if s = ''{}'' then Some (JDict [])
        else None),
      open_file = (\<lambda>path mode encoding.
        if path = ''out.json'' \<or> path = accented_name then None
        else Some (PyException ''PermissionError'' True ''Permission denied'')),
      json_dump = (\<lambda>obj path ensure_ascii indent. None),
      print_stdout = (\<lambda>line.
        if line = ''Transcript data written to '' @ accented_name
        then Print_raises (PyException ''UnicodeEncodeError'' True ''ordinal not in range(128)'')
        else Printed),
      uncaught = (\<lambda>e. ([''Traceback (most recent call last):'', exc_class e], 1))\<rparr>"

definition credentials :: "real json" where
  "credentials = JDict [(''proxy_username'', JStr ''user''), (''proxy_password'', JStr ''secret'')]"

section \<open>Lemmas about the parts\<close>

lemma append_snippets_map:
  "append_snippets segments snippets_list = snippets_list @ map snippet_to_dict segments"
  by (induction segments arbitrary: snippets_list) simp_all


lemma fetch_transcript_cases:
  "fetch_transcript lib vid proxy_cfg = (made, Inr result) \<Longrightarrow>
     (\<exists>t. get_transcript_list lib vid proxy_cfg = (made, Inr t) \<and>
          result = build_transcript_data vid t) \<or>
     (\<exists>e. get_transcript_list lib vid proxy_cfg = (made, Inl e) \<and> is_Exception e \<and>
          result = Failure vid (str e))"
  by (auto simp: fetch_transcript_def split: prod.splits sum.splits if_splits)


text \<open>A transcript list reaches the conversion only as the value of the run's one fetch.\<close>

lemma get_transcript_list_returns:
  assumes "get_transcript_list lib vid proxy_cfg = (made, Inr transcript_list)"
  shows "\<exists>api. made \<noteq> [] \<and> last made = Call_fetch api vid \<and>
               fetch lib api vid = Inr transcript_list"
  using assms
  by (auto simp: get_transcript_list_def fetch_with_proxy_def fetch_without_proxy_def Let_def
      split: sum.splits bool.splits option.splits)


text \<open>The exceptions the interpreter raises for a membership test are instances of Exception.\<close>

lemma py_in_raises_Exception:
  "py_in key v = Inl e \<Longrightarrow> is_Exception e"
  by (cases v) auto








section \<open>Runs on the stub\<close>

lemma stub_success:
  "fetch_transcript stub_library ''abc123'' JNull =
     ([Call_YouTubeTranscriptApi None, Call_fetch (YouTubeTranscriptApi None) ''abc123''],
      Inr (Success ''abc123'' [\<lparr>text' = ''hi'', start = 0, duration = 3 / 2\<rparr>]
             (PyFloat (3 / 2)) 1))"
  by (simp add: fetch_transcript_def get_transcript_list_def proxy_condition_def
      fetch_without_proxy_def stub_library_def build_transcript_data_def convert_snippets_def
      snippet_to_dict_def)

lemma stub_silent:
  "fetch_transcript stub_library ''silent'' JNull =
     ([Call_YouTubeTranscriptApi None, Call_fetch (YouTubeTranscriptApi None) ''silent''],
      Inr (Success ''silent'' [] (PyInt 0) 0))"
  by (simp add: fetch_transcript_def get_transcript_list_def proxy_condition_def
      fetch_without_proxy_def stub_library_def build_transcript_data_def convert_snippets_def)

lemma stub_unavailable:
  "fetch_transcript stub_library ''zzz'' JNull =
     ([Call_YouTubeTranscriptApi None, Call_fetch (YouTubeTranscriptApi None) ''zzz''],
      Inr (Failure ''zzz'' ''video unavailable''))"
  by (simp add: fetch_transcript_def get_transcript_list_def proxy_condition_def
      fetch_without_proxy_def stub_library_def)

lemma stub_interrupted:
  "fetch_transcript stub_library ''interrupted'' JNull =
     ([Call_YouTubeTranscriptApi None, Call_fetch (YouTubeTranscriptApi None) ''interrupted''],
      Inl (PyException ''KeyboardInterrupt'' False []))"
  by (simp add: fetch_transcript_def get_transcript_list_def proxy_condition_def
      fetch_without_proxy_def stub_library_def)

lemma stub_proxy:
  "fetch_transcript stub_library ''abc123'' credentials =
     ([Call_WebshareProxyConfig (JStr ''user'') (JStr ''secret''),
       Call_YouTubeTranscriptApi (Some (WebshareProxyConfig (JStr ''user'') (JStr ''secret''))),
       Call_fetch (YouTubeTranscriptApi (Some (WebshareProxyConfig (JStr ''user'') (JStr ''secret''))))
         ''abc123''],
      Inr (Success ''abc123'' [\<lparr>text' = ''hi'', start = 0, duration = 3 / 2\<rparr>]
             (PyFloat (3 / 2)) 1))"
  by (simp add: fetch_transcript_def get_transcript_list_def proxy_condition_def credentials_def
      fetch_with_proxy_def stub_library_def build_transcript_data_def convert_snippets_def
      snippet_to_dict_def Let_def)

lemma stub_refused:
  "fetch_transcript refusing_library ''abc123'' credentials =
     ([Call_WebshareProxyConfig (JStr ''user'') (JStr ''secret''),
       Call_YouTubeTranscriptApi (Some (WebshareProxyConfig (JStr ''user'') (JStr ''secret'')))],
      Inr (Failure ''abc123'' ''bad proxy''))"
  by (simp add: fetch_transcript_def get_transcript_list_def proxy_condition_def credentials_def
      fetch_with_proxy_def refusing_library_def stub_library_def Let_def)


lemma stub_list:
  "get_transcript_list stub_library ''abc123'' JNull =
     ([Call_YouTubeTranscriptApi None, Call_fetch (YouTubeTranscriptApi None) ''abc123''],
      Inr (Some [\<lparr>snippet_text = ''hi'', snippet_start = 0, snippet_duration = 3 / 2\<rparr>]))"
  by (simp add: get_transcript_list_def proxy_condition_def fetch_without_proxy_def
      stub_library_def)

section \<open>Properties of fetch_transcript\<close>

text \<open>
  C1. Whenever \<^verbatim>\<open>fetch_transcript\<close> returns the success variant, \<^verbatim>\<open>total_duration\<close> is \<^verbatim>\<open>0\<close> if
  \<^verbatim>\<open>snippets\<close> is empty, and otherwise the sum of \<^verbatim>\<open>start\<close> and \<^verbatim>\<open>duration\<close> of the last snippet.
\<close>

theorem fetch_transcript_total_duration:
  assumes "fetch_transcript lib vid proxy_cfg = (made, Inr result)" and "success result"
  shows "(snippets result = [] \<longrightarrow> total_duration result = PyInt 0) \<and>
         (snippets result \<noteq> [] \<longrightarrow>
            total_duration result =
              PyFloat (start (last (snippets result)) + duration (last (snippets result))))"
proof -
  from fetch_transcript_cases [OF assms(1)] assms(2)
  obtain t where r: "result = build_transcript_data vid t" by auto
  obtain xs d where c: "convert_snippets t = (xs, d)" by (cases "convert_snippets t")
  then have "d = (if xs = [] then PyInt 0 else PyFloat (start (last xs) + duration (last xs)))"
    by (cases t) (auto simp: convert_snippets_def Let_def split: if_splits)
  with c show ?thesis
    unfolding r build_transcript_data_def by simp
qed

theorem fetch_transcript_total_duration_witness:
  "(\<exists>result. snd (fetch_transcript stub_library ''abc123'' JNull) = Inr result \<and>
      success result \<and> total_duration result = PyFloat (3 / 2)) \<and>
   (\<exists>result. snd (fetch_transcript stub_library ''silent'' JNull) = Inr result \<and>
      success result \<and> total_duration result = PyInt 0)"
  using fetch_transcript_total_duration [OF stub_success]
    fetch_transcript_total_duration [OF stub_silent]
  by (simp add: stub_success stub_silent)

text \<open>
  C2. Whenever \<^verbatim>\<open>fetch_transcript\<close> returns the success variant, \<^verbatim>\<open>snippet_count\<close> is the length
  of \<^verbatim>\<open>snippets\<close>.
\<close>

theorem fetch_transcript_snippet_count:
  assumes "fetch_transcript lib vid proxy_cfg = (made, Inr result)" and "success result"
  shows "snippet_count result = length (snippets result)"
proof -
  from fetch_transcript_cases [OF assms(1)] assms(2)
  obtain t where r: "result = build_transcript_data vid t" by auto
  show ?thesis
    unfolding r build_transcript_data_def by (simp split: prod.splits)
qed

theorem fetch_transcript_snippet_count_witness:
  "\<exists>result. snd (fetch_transcript stub_library ''abc123'' credentials) = Inr result \<and>
     success result \<and> snippet_count result = 1 \<and> length (snippets result) = 1"
  using fetch_transcript_snippet_count [OF stub_proxy]
  by (simp add: stub_proxy)

text \<open>
  C3, as the code has it. If the construction of the client (of the proxy object or of the API
  object, on either path) or the fetch raises an exception \<open>e\<close> that is an instance of
  \<^verbatim>\<open>Exception\<close>, \<^verbatim>\<open>fetch_transcript\<close> returns the failure variant with the \<^verbatim>\<open>video_id\<close> and with
  \<^verbatim>\<open>str(e)\<close> in \<^verbatim>\<open>error\<close>; an exception that is no instance of \<^verbatim>\<open>Exception\<close> is propagated
  to the caller.
\<close>

theorem fetch_transcript_catches:
  assumes "(proxy_condition proxy_cfg = Inr False \<and>
              client_raises lib (YouTubeTranscriptApi None) vid e) \<or>
           (proxy_condition proxy_cfg = Inr True \<and>
              py_getitem proxy_cfg ''proxy_username'' = Inr username \<and>
              py_getitem proxy_cfg ''proxy_password'' = Inr password \<and>
              proxy_client_raises lib username password vid e)"
  shows "snd (fetch_transcript lib vid proxy_cfg) =
           (if is_Exception e then Inr (Failure vid (str e)) else Inl e)"
  using assms
  by (auto simp: fetch_transcript_def get_transcript_list_def fetch_without_proxy_def
      fetch_with_proxy_def client_raises_def proxy_client_raises_def Let_def)

theorem fetch_transcript_catches_witness:
  "client_raises stub_library (YouTubeTranscriptApi None) ''zzz''
     (PyException ''VideoUnavailable'' True ''video unavailable'') \<and>
   snd (fetch_transcript stub_library ''zzz'' JNull) = Inr (Failure ''zzz'' ''video unavailable'') \<and>
   proxy_client_raises stub_library (JStr ''user'') (JStr ''secret'') ''zzz''
     (PyException ''VideoUnavailable'' True ''video unavailable'') \<and>
   snd (fetch_transcript stub_library ''zzz'' credentials) =
     Inr (Failure ''zzz'' ''video unavailable'')"
proof -
  let ?e = "PyException ''VideoUnavailable'' True ''video unavailable''"
  have c: "proxy_condition (JNull :: real json) = Inr False"
    by (simp add: proxy_condition_def)
  have r: "client_raises stub_library (YouTubeTranscriptApi None) ''zzz'' ?e"
    by (simp add: client_raises_def stub_library_def)
  from c r have "(proxy_condition (JNull :: real json) = Inr False \<and>
              client_raises stub_library (YouTubeTranscriptApi None) ''zzz'' ?e) \<or>
           (proxy_condition (JNull :: real json) = Inr True \<and>
              py_getitem (JNull :: real json) ''proxy_username'' = Inr JNull \<and>
              py_getitem (JNull :: real json) ''proxy_password'' = Inr JNull \<and>
              proxy_client_raises stub_library JNull JNull ''zzz'' ?e)"
    by simp
  from fetch_transcript_catches [OF this]
  have direct: "snd (fetch_transcript stub_library ''zzz'' JNull) =
      Inr (Failure ''zzz'' ''video unavailable'')"
    by simp
  have c': "proxy_condition credentials = Inr True"
    by (simp add: proxy_condition_def credentials_def)
  have u: "py_getitem credentials ''proxy_username'' = Inr (JStr ''user'')"
    and p: "py_getitem credentials ''proxy_password'' = Inr (JStr ''secret'')"
    by (simp_all add: credentials_def)
  have r': "proxy_client_raises stub_library (JStr ''user'') (JStr ''secret'') ''zzz'' ?e"
    by (simp add: proxy_client_raises_def client_raises_def stub_library_def)
  from c' u p r' have "(proxy_condition credentials = Inr False \<and>
              client_raises stub_library (YouTubeTranscriptApi None) ''zzz'' ?e) \<or>
           (proxy_condition credentials = Inr True \<and>
              py_getitem credentials ''proxy_username'' = Inr (JStr ''user'') \<and>
              py_getitem credentials ''proxy_password'' = Inr (JStr ''secret'') \<and>
              proxy_client_raises stub_library (JStr ''user'') (JStr ''secret'') ''zzz'' ?e)"
    by simp
  from fetch_transcript_catches [OF this]
  have "snd (fetch_transcript stub_library ''zzz'' credentials) =
      Inr (Failure ''zzz'' ''video unavailable'')"
    by simp
  with direct r r' show ?thesis by simp
qed

text \<open>
  C3, as it is written, speaks of any exception. A \<^verbatim>\<open>KeyboardInterrupt\<close> raised during the fetch
  is not caught by \<^verbatim>\<open>except Exception\<close>: the run does not return the failure variant, the
  exception leaves \<^verbatim>\<open>fetch_transcript\<close>.
\<close>

theorem propagation_counterexample:
  "client_raises stub_library (YouTubeTranscriptApi None) ''interrupted''
     (PyException ''KeyboardInterrupt'' False []) \<and>
   snd (fetch_transcript stub_library ''interrupted'' JNull) =
     Inl (PyException ''KeyboardInterrupt'' False []) \<and>
   snd (fetch_transcript stub_library ''interrupted'' JNull) \<noteq>
     Inr (Failure ''interrupted'' (str (PyException ''KeyboardInterrupt'' False [])))"
proof -
  have "client_raises stub_library (YouTubeTranscriptApi None) ''interrupted''
     (PyException ''KeyboardInterrupt'' False [])"
    by (simp add: client_raises_def stub_library_def)
  then show ?thesis
    by (simp add: stub_interrupted)
qed




text \<open>
  C5. When the fetch of the run returns \<open>transcript_list\<close>, \<^verbatim>\<open>fetch_transcript\<close> returns the
  success variant and its \<^verbatim>\<open>snippets\<close> has the length and the order of the fetched segments,
  the \<open>i\<close>-th \<^verbatim>\<open>dict\<close> holding the \<^verbatim>\<open>text\<close>, \<^verbatim>\<open>start\<close> and \<^verbatim>\<open>duration\<close> of the \<open>i\<close>-th segment and
  nothing else; for an empty or absent sequence \<^verbatim>\<open>snippets\<close> is empty.
\<close>

theorem snippets_copy_segments:
  assumes "get_transcript_list lib vid proxy_cfg = (made, Inr transcript_list)"
    and "segments = (case transcript_list of None \<Rightarrow> [] | Some xs \<Rightarrow> xs)"
  shows "\<exists>result.
           fetch_transcript lib vid proxy_cfg = (made, Inr result) \<and>
           success result \<and>
           length (snippets result) = length segments \<and>
           (\<forall>i < length segments.
              snippets result ! i =
                \<lparr>text' = snippet_text (segments ! i),
                 start = snippet_start (segments ! i),
                 duration = snippet_duration (segments ! i)\<rparr>) \<and>
           (\<not> transcript_truthy transcript_list \<longrightarrow> snippets result = [])"
proof -
  define result where "result = build_transcript_data vid transcript_list"
  have r: "fetch_transcript lib vid proxy_cfg = (made, Inr result)"
    using assms(1) by (simp add: fetch_transcript_def result_def)
  have s: "snippets result = map snippet_to_dict segments"
    unfolding result_def assms(2) build_transcript_data_def convert_snippets_def
    by (cases transcript_list) (simp_all add: append_snippets_map Let_def)
  have "success result"
    unfolding result_def build_transcript_data_def by (simp split: prod.splits)
  moreover have "\<not> transcript_truthy transcript_list \<longrightarrow> segments = []"
    unfolding assms(2) by (cases transcript_list) simp_all
  ultimately show ?thesis
    using r by (simp add: s snippet_to_dict_def)
qed

theorem snippets_copy_segments_witness:
  "\<exists>result. snd (fetch_transcript stub_library ''abc123'' JNull) = Inr result \<and>
     length (snippets result) = 1 \<and>
     snippets result ! 0 = \<lparr>text' = ''hi'', start = 0, duration = 3 / 2\<rparr>"
  using snippets_copy_segments [OF stub_list refl] by auto

text \<open>
  C9. Whatever the library does, a \<^verbatim>\<open>dict\<close> that \<^verbatim>\<open>fetch_transcript\<close> returns, success or
  failure, has the argument as its \<^verbatim>\<open>video_id\<close>; and \<^verbatim>\<open>fetch_transcript\<close> returns such a
  \<^verbatim>\<open>dict\<close> unless an exception that is no instance of \<^verbatim>\<open>Exception\<close> leaves it.
\<close>

theorem fetch_transcript_video_id:
  "(\<forall>result. snd (fetch_transcript lib vid proxy_cfg) = Inr result \<longrightarrow> video_id result = vid) \<and>
   (\<forall>e. snd (fetch_transcript lib vid proxy_cfg) = Inl e \<longrightarrow> \<not> is_Exception e)"
  by (auto simp: fetch_transcript_def build_transcript_data_def
      split: prod.splits sum.splits if_splits)

theorem fetch_transcript_video_id_witness:
  "(\<exists>result. snd (fetch_transcript stub_library ''abc123'' JNull) = Inr result \<and>
      success result \<and> video_id result = ''abc123'') \<and>
   (\<exists>result. snd (fetch_transcript stub_library ''zzz'' JNull) = Inr result \<and>
      \<not> success result \<and> video_id result = ''zzz'')"
  using fetch_transcript_video_id [of stub_library "''abc123''" JNull]
    fetch_transcript_video_id [of stub_library "''zzz''" JNull]
  by (simp add: stub_success stub_unavailable)

text \<open>
  C10. For a truthy \<^verbatim>\<open>proxy_config\<close> on which the membership test raises (a number such as
  \<^verbatim>\<open>5\<close>), \<^verbatim>\<open>fetch_transcript\<close> constructs no client, on neither path, and returns the failure
  variant with the text of that exception.
\<close>

theorem fetch_transcript_membership_raises:
  assumes "truthy proxy_cfg" and "py_in ''proxy_username'' proxy_cfg = Inl e"
  shows "fetch_transcript lib vid proxy_cfg = ([], Inr (Failure vid (str e)))"
  using assms py_in_raises_Exception [OF assms(2)]
  by (simp add: fetch_transcript_def get_transcript_list_def proxy_condition_def)

theorem fetch_transcript_membership_raises_witness:
  "truthy (JInt 5 :: real json) \<and>
   fetch_transcript stub_library ''abc123'' (JInt 5) =
     ([], Inr (Failure ''abc123''
                 (''argument of type '' @ quoted ''int'' @ '' is not iterable'')))"
proof -
  have t: "truthy (JInt 5 :: real json)" by simp
  have m: "py_in ''proxy_username'' (JInt 5 :: real json) =
      Inl (PyException ''TypeError'' True
             (''argument of type '' @ quoted ''int'' @ '' is not iterable''))"
    by simp
  from fetch_transcript_membership_raises [OF t m, of stub_library "''abc123''"] t
  show ?thesis by simp
qed

section \<open>Properties of main\<close>

text \<open>
  C6, as the code has it. Once the arguments are accepted and \<^verbatim>\<open>fetch_transcript\<close> has returned
  \<open>result\<close>, of either variant, \<^verbatim>\<open>main\<close> opens the output file for writing in UTF-8 and, if that
  went well, dumps \<open>result\<close> into it with \<^verbatim>\<open>ensure_ascii=False\<close> and \<^verbatim>\<open>indent=2\<close>. If the write
  succeeds and the confirmation naming the output file is printed to standard output, the
  status is 0. If the write fails with an instance of \<^verbatim>\<open>Exception\<close>, the error is printed to
  the error stream and the status is 1; a failure that is no instance of \<^verbatim>\<open>Exception\<close> is not
  caught and is left to the interpreter.
\<close>

theorem main_writes_result:
  assumes "3 \<le> length argv"
    and "parse_proxy_config rt argv = Some proxy_cfg"
    and "fetch_transcript lib (argv ! 1) proxy_cfg = (made, Inr result)"
    and "output_file = argv ! 2"
    and "run = main lib rt argv"
  shows "prefix (made @ [Call_open output_file ''w'' ''utf-8'']) (trace run) \<and>
         (open_file rt output_file ''w'' ''utf-8'' = None \<longrightarrow>
            trace run = made @ [Call_open output_file ''w'' ''utf-8'',
                                Call_json_dump result output_file False 2]) \<and>
         (write_failure rt output_file result = None \<and>
          print_stdout rt (''Transcript data written to '' @ output_file) = Printed \<longrightarrow>
            stdout run = [''Transcript data written to '' @ output_file] \<and>
            stderr run = [] \<and> exit_status run = 0) \<and>
         (\<forall>e. write_failure rt output_file result = Some e \<and> is_Exception e \<longrightarrow>
            stdout run = [] \<and>
            stderr run = [''Error writing to output file: '' @ str e] \<and>
            exit_status run = 1) \<and>
         (\<forall>e. write_failure rt output_file result = Some e \<and> \<not> is_Exception e \<longrightarrow>
            stdout run = [] \<and>
            stderr run = fst (uncaught rt e) \<and>
            exit_status run = snd (uncaught rt e))"
proof -
  from assms(1) have "\<not> length argv < 3" by simp
  with assms(2,3,4,5) have run: "run = write_result rt output_file made result"
    by (simp add: main_def)
  show ?thesis
    unfolding run write_result_def write_failure_def write_handler_def propagate_def
    by (simp add: Let_def split: option.splits print_outcome.splits)
qed

theorem main_writes_result_witness:
  "main stub_library stub_runtime [''youtube_transcript_fetcher.py'', ''zzz'', ''out.json''] =
     \<lparr>stdout = [''Transcript data written to out.json''], stderr = [], exit_status = 0,
      trace = [Call_YouTubeTranscriptApi None,
               Call_fetch (YouTubeTranscriptApi None) ''zzz'',
               Call_open ''out.json'' ''w'' ''utf-8'',
               Call_json_dump (Failure ''zzz'' ''video unavailable'') ''out.json'' False 2]\<rparr> \<and>
   exit_status
     (main stub_library stub_runtime [''youtube_transcript_fetcher.py'', ''zzz'', ''/out.json'']) = 1 \<and>
   stderr
     (main stub_library stub_runtime [''youtube_transcript_fetcher.py'', ''zzz'', ''/out.json'']) =
     [''Error writing to output file: Permission denied'']"
proof -
  let ?argv = "[''youtube_transcript_fetcher.py'', ''zzz'', ''out.json'']"
  let ?argv' = "[''youtube_transcript_fetcher.py'', ''zzz'', ''/out.json'']"
  have p: "parse_proxy_config stub_runtime ?argv = Some JNull"
    and p': "parse_proxy_config stub_runtime ?argv' = Some JNull"
    by (simp_all add: parse_proxy_config_def)
  have f: "fetch_transcript stub_library (?argv ! 1) JNull =
      ([Call_YouTubeTranscriptApi None, Call_fetch (YouTubeTranscriptApi None) ''zzz''],
       Inr (Failure ''zzz'' ''video unavailable''))"
    and f': "fetch_transcript stub_library (?argv' ! 1) JNull =
      ([Call_YouTubeTranscriptApi None, Call_fetch (YouTubeTranscriptApi None) ''zzz''],
       Inr (Failure ''zzz'' ''video unavailable''))"
    using stub_unavailable by simp_all
  have w: "write_failure stub_runtime ''out.json'' (Failure ''zzz'' ''video unavailable'') = None"
    by (simp add: write_failure_def stub_runtime_def)
  have w': "write_failure stub_runtime ''/out.json'' (Failure ''zzz'' ''video unavailable'') =
      Some (PyException ''PermissionError'' True ''Permission denied'')"
    by (simp add: write_failure_def stub_runtime_def accented_name_def)
  have o: "open_file stub_runtime ''out.json'' ''w'' ''utf-8'' = None"
    by (simp add: stub_runtime_def)
  have pr: "print_stdout stub_runtime (''Transcript data written to '' @ ''out.json'') = Printed"
    by (simp add: stub_runtime_def accented_name_def)
  from main_writes_result [OF _ p f refl refl] w o pr
  have "main stub_library stub_runtime ?argv =
     \<lparr>stdout = [''Transcript data written to out.json''], stderr = [], exit_status = 0,
      trace = [Call_YouTubeTranscriptApi None,
               Call_fetch (YouTubeTranscriptApi None) ''zzz'',
               Call_open ''out.json'' ''w'' ''utf-8'',
               Call_json_dump (Failure ''zzz'' ''video unavailable'') ''out.json'' False 2]\<rparr>"
    by (cases "main stub_library stub_runtime ?argv") simp
  moreover from main_writes_result [OF _ p' f' refl refl] w'
  have "exit_status (main stub_library stub_runtime ?argv') = 1 \<and>
        stderr (main stub_library stub_runtime ?argv') =
          [''Error writing to output file: Permission denied'']"
    by simp
  ultimately show ?thesis by simp
qed

text \<open>
  C6, as it is written, promises the confirmation and status 0 whenever the write succeeds. On
  the stub, whose standard output cannot encode the accented file name, the run for that
  output file opens the file and dumps the result without an exception, and then ends with
  nothing on standard output, an error on the error stream and status 1.
\<close>

theorem confirmation_counterexample:
  "write_failure stub_runtime accented_name (Failure ''zzz'' ''video unavailable'') = None \<and>
   main stub_library stub_runtime [''youtube_transcript_fetcher.py'', ''zzz'', accented_name] =
     \<lparr>stdout = [],
      stderr = [''Error writing to output file: ordinal not in range(128)''],
      exit_status = 1,
      trace = [Call_YouTubeTranscriptApi None,
               Call_fetch (YouTubeTranscriptApi None) ''zzz'',
               Call_open accented_name ''w'' ''utf-8'',
               Call_json_dump (Failure ''zzz'' ''video unavailable'') accented_name False 2]\<rparr>"
proof -
  have w: "write_failure stub_runtime accented_name (Failure ''zzz'' ''video unavailable'') = None"
    by (simp add: write_failure_def stub_runtime_def)
  have "write_result stub_runtime accented_name
      [Call_YouTubeTranscriptApi None, Call_fetch (YouTubeTranscriptApi None) ''zzz'']
      (Failure ''zzz'' ''video unavailable'') =
     \<lparr>stdout = [],
      stderr = [''Error writing to output file: ordinal not in range(128)''],
      exit_status = 1,
      trace = [Call_YouTubeTranscriptApi None,
               Call_fetch (YouTubeTranscriptApi None) ''zzz'',
               Call_open accented_name ''w'' ''utf-8'',
               Call_json_dump (Failure ''zzz'' ''video unavailable'') accented_name False 2]\<rparr>"
    by (simp add: write_result_def write_handler_def stub_runtime_def)
  then have "main stub_library stub_runtime
      [''youtube_transcript_fetcher.py'', ''zzz'', accented_name] =
     \<lparr>stdout = [],
      stderr = [''Error writing to output file: ordinal not in range(128)''],
      exit_status = 1,
      trace = [Call_YouTubeTranscriptApi None,
               Call_fetch (YouTubeTranscriptApi None) ''zzz'',
               Call_open accented_name ''w'' ''utf-8'',
               Call_json_dump (Failure ''zzz'' ''video unavailable'') accented_name False 2]\<rparr>"
    by (simp add: main_def parse_proxy_config_def stub_unavailable)
  with w show ?thesis by simp
qed

text \<open>
  C7. With fewer than two positional arguments (\<^verbatim>\<open>sys.argv\<close> without the program's name),
  \<^verbatim>\<open>main\<close> prints the usage message to the error stream and exits with status 1; it makes no
  call at all, so nothing is fetched and nothing is written.
\<close>

theorem main_usage:
  assumes "length (tl argv) < 2"
  shows "main lib rt argv = \<lparr>stdout = [], stderr = [usage], exit_status = 1, trace = []\<rparr>"
proof -
  from assms have "length argv < 3" by simp
  then show ?thesis by (simp add: main_def)
qed

theorem main_usage_witness:
  "main stub_library stub_runtime [''youtube_transcript_fetcher.py'', ''abc123''] =
     \<lparr>stdout = [], stderr = [usage], exit_status = 1, trace = []\<rparr>"
  using main_usage [of "[''youtube_transcript_fetcher.py'', ''abc123'']" stub_library stub_runtime]
  by simp

text \<open>
  C8. With a third argument that \<^verbatim>\<open>json.loads\<close> rejects, \<^verbatim>\<open>main\<close> prints an error to the error
  stream and exits with status 1; it makes no call, so \<^verbatim>\<open>fetch_transcript\<close> is not invoked
  and no output file is opened.
\<close>

theorem main_invalid_json:
  assumes "length argv > 3" and "json_loads rt (argv ! 3) = None"
  shows "main lib rt argv =
           \<lparr>stdout = [], stderr = [''Invalid proxy configuration JSON''],
            exit_status = 1, trace = []\<rparr>"
  using assms by (simp add: main_def parse_proxy_config_def)

theorem main_invalid_json_witness:
  "main stub_library stub_runtime
     [''youtube_transcript_fetcher.py'', ''abc123'', ''out.json'', ''not-json''] =
     \<lparr>stdout = [], stderr = [''Invalid proxy configuration JSON''],
      exit_status = 1, trace = []\<rparr>"
proof -
  let ?argv = "[''youtube_transcript_fetcher.py'', ''abc123'', ''out.json'', ''not-json'']"
  have l: "length ?argv > 3" by simp
  have j: "json_loads stub_runtime (?argv ! 3) = None"
    by (simp add: stub_runtime_def)
  from main_invalid_json [OF l j] show ?thesis .
qed

end
